theory Spec2Isabelle
  imports Complex_Main "HOL-Library.AList"
begin

section \<open>Python values and exceptions\<close>

text \<open>
  The monitor (\<^verbatim>\<open>src/tools/monitor_fuzzing.py\<close>) is a single class
  \<^verbatim>\<open>FuzzerMonitor\<close>. Its data are Python strings, unbounded integers and one
  dictionary from strings to integers or strings.

  A Python \<^verbatim>\<open>str\<close> is modelled as \<^typ>\<open>string\<close>, each \<^typ>\<open>char\<close> standing for
  the code point of the same number (U+0000 to U+00FF); texts with code points
  above U+00FF are outside the model. Exceptions are values of \<open>exn\<close>; a
  computation that can raise returns \<open>exn + 'a\<close>, with \<open>Inl\<close> the exception.
  The last member, \<open>Terminated\<close>, is not an exception class: it is the end of the
  monitor's own process by a SIGTERM that it sends to itself, which leaves a call
  at once as an uncaught exception does. Only \<^verbatim>\<open>os.kill\<close> gives it.
\<close>

datatype exn =
    FileNotFoundError
  | ValueError
  | TypeError
  | AttributeError
  | OverflowError
  | OSError
  | PermissionError
  | ProcessLookupError
  | UnicodeDecodeError
  | CalledProcessError
  | Terminated

datatype pyval = IntVal int | StrVal string

type_synonym stats = "(string \<times> pyval) list"

definition bind :: "exn + 'a \<Rightarrow> ('a \<Rightarrow> exn + 'b) \<Rightarrow> exn + 'b" where
  "bind m f = (case m of Inl e \<Rightarrow> Inl e | Inr x \<Rightarrow> f x)"

section \<open>String primitives of the interpreter\<close>

text \<open>
  \<^verbatim>\<open>str.isspace\<close> on the code points below 256: TAB to CR, FS to US, the space,
  NEL (U+0085) and the no-break space (U+00A0). \<^verbatim>\<open>str.strip()\<close> removes these
  from both ends.
\<close>

definition py_isspace :: "char \<Rightarrow> bool" where
  "py_isspace c = (let n = (of_char c :: nat) in
     (9 \<le> n \<and> n \<le> 13) \<or> (28 \<le> n \<and> n \<le> 32) \<or> n = 133 \<or> n = 160)"

definition strip :: "string \<Rightarrow> string" where
  "strip s = rev (dropWhile py_isspace (rev (dropWhile py_isspace s)))"

text \<open>
  \<^verbatim>\<open>str.isdigit\<close>: true when the string is not empty and every character has the
  Unicode property Numeric_Type=Digit or Decimal. Below 256 these are the ASCII
  digits and the superscripts U+00B2, U+00B3 and U+00B9.
\<close>

definition is_ascii_digit :: "char \<Rightarrow> bool" where
  "is_ascii_digit c = (let n = (of_char c :: nat) in 48 \<le> n \<and> n \<le> 57)"

definition py_isdigit_char :: "char \<Rightarrow> bool" where
  "py_isdigit_char c = (let n = (of_char c :: nat) in
     (48 \<le> n \<and> n \<le> 57) \<or> n = 178 \<or> n = 179 \<or> n = 185)"

definition isdigit :: "string \<Rightarrow> bool" where
  "isdigit s = (s \<noteq> [] \<and> list_all py_isdigit_char s)"

text \<open>
  \<^verbatim>\<open>s.split(":", 1)\<close>: at most one split, at the first colon. The result has two
  parts when the string holds a colon and is the string alone otherwise.
\<close>

definition split_colon :: "string \<Rightarrow> string list" where
  "split_colon s =
     (if CHR '':'' \<in> set s
      then [takeWhile (\<lambda>c. c \<noteq> CHR '':'') s, tl (dropWhile (\<lambda>c. c \<noteq> CHR '':'') s)]
      else [s])"

text \<open>\<^verbatim>\<open>s.split()\<close>: the maximal runs of characters that are not whitespace.\<close>

fun split_acc :: "string \<Rightarrow> string \<Rightarrow> string list" where
  "split_acc cur [] = (if cur = [] then [] else [rev cur])"
| "split_acc cur (c # cs) =
     (if py_isspace c
      then (if cur = [] then split_acc [] cs else rev cur # split_acc [] cs)
      else split_acc (c # cur) cs)"

definition split_ws :: "string \<Rightarrow> string list" where
  "split_ws s = split_acc [] s"

subsection \<open>\<^verbatim>\<open>int(str)\<close>\<close>

text \<open>
  \<^verbatim>\<open>int(s)\<close> in base 10, as CPython reads it: the two whitespace characters
  at or above U+007F become a space and every other character from U+007F on is
  rejected; then blanks of the C locale (TAB to CR, space) are skipped, one
  optional sign is read, then decimal digits in which single underscores may
  separate digits, then blanks up to the end. The separators FS to US are
  whitespace for \<^verbatim>\<open>strip\<close> and not for \<^verbatim>\<open>int\<close>. A positive
  \<open>maxd\<close> is the interpreter's limit on the number of digits of a converted
  integer (\<^verbatim>\<open>sys.get_int_max_str_digits()\<close>, 4300 by default from Python 3.11);
  0 means no limit.
\<close>

definition c_isspace :: "char \<Rightarrow> bool" where
  "c_isspace c = (let n = (of_char c :: nat) in (9 \<le> n \<and> n \<le> 13) \<or> n = 32)"

definition to_ascii :: "string \<Rightarrow> string option" where
  "to_ascii s =
     (if list_all (\<lambda>c. (of_char c :: nat) < 127 \<or> py_isspace c) s
      then Some (map (\<lambda>c. if (of_char c :: nat) < 127 then c else CHR '' '') s)
      else None)"

fun underscores_ok :: "string \<Rightarrow> bool" where
  "underscores_ok [] = False"
| "underscores_ok [c] = (c \<noteq> CHR ''_'')"
| "underscores_ok (c # d # cs) =
     (if c = CHR ''_'' then False
      else if d = CHR ''_'' then underscores_ok cs
      else underscores_ok (d # cs))"

definition digit_val :: "char \<Rightarrow> int" where
  "digit_val c = int (of_char c) - 48"

definition decimal :: "string \<Rightarrow> int" where
  "decimal ds = foldl (\<lambda>acc c. 10 * acc + digit_val c) 0 ds"

definition py_int :: "nat \<Rightarrow> string \<Rightarrow> exn + int" where
  "py_int maxd s =
     (case to_ascii s of
        None \<Rightarrow> Inl ValueError
      | Some a \<Rightarrow>
         (let b = dropWhile c_isspace a;
              neg = (b \<noteq> [] \<and> hd b = CHR ''-'');
              signed = (b \<noteq> [] \<and> (hd b = CHR ''-'' \<or> hd b = CHR ''+''));
              body = (if signed then tl b else b);
              num = takeWhile (\<lambda>c. is_ascii_digit c \<or> c = CHR ''_'') body;
              rest = dropWhile (\<lambda>c. is_ascii_digit c \<or> c = CHR ''_'') body;
              ds = filter is_ascii_digit num
          in if \<not> underscores_ok num then Inl ValueError
             else if 0 < maxd \<and> maxd < length ds then Inl ValueError
             else if \<not> list_all c_isspace rest then Inl ValueError
             else Inr (if neg then - decimal ds else decimal ds)))"

text \<open>\<^verbatim>\<open>int(v)\<close> for a value of the dictionary: an integer is returned as it is.\<close>

definition int_of :: "nat \<Rightarrow> pyval \<Rightarrow> exn + int" where
  "int_of maxd v = (case v of IntVal n \<Rightarrow> Inr n | StrVal s \<Rightarrow> py_int maxd s)"

section \<open>The environment and the monitor's state\<close>

text \<open>
  What one call of \<^verbatim>\<open>check_fuzzer_status\<close> (or of \<^verbatim>\<open>run\<close>) obtains from the
  operating system and the interpreter:
  \<^item> \<open>stats_file\<close>: opening \<^verbatim>\<open>output_dir / fuzzer_stats\<close> in text mode and reading
    it to the end gives the decoded text, or raises;
  \<^item> \<open>strftime_now\<close>: \<^verbatim>\<open>time.strftime('%Y-%m-%d %H:%M:%S', time.localtime())\<close>;
  \<^item> \<open>strftime_local t\<close>: the same format of \<^verbatim>\<open>time.localtime(t)\<close> for an integer
    \<open>t\<close>, which raises when \<open>t\<close> is out of the platform's range;
  \<^item> \<open>pgrep\<close>: \<^verbatim>\<open>subprocess.check_output(["pgrep", "-f", "afl-fuzz"]).decode()\<close>;
  \<^item> \<open>os_kill pid\<close>: \<^verbatim>\<open>os.kill(pid, signal.SIGTERM)\<close> returns, raises, or ends the
    monitor, when \<open>pid\<close> is the monitor's own process (\<^verbatim>\<open>pgrep -f\<close> lists it when
    its command line holds \<^verbatim>\<open>afl-fuzz\<close>, and SIGTERM has its default action);
  \<^item> \<open>time_time\<close>: the clock \<^verbatim>\<open>time.time()\<close> as \<^verbatim>\<open>scheduler.enter\<close> reads it,
    a real number here;
  \<^item> \<open>int_max_str_digits\<close>: the digit limit of \<^verbatim>\<open>int\<close>.
\<close>

datatype sent = Returned | Raised exn | Ended

record env =
  int_max_str_digits :: nat
  stats_file :: "exn + string"
  strftime_now :: string
  strftime_local :: "int \<Rightarrow> exn + string"
  pgrep :: "exn + string"
  os_kill :: "int \<Rightarrow> sent"
  time_time :: real

text \<open>The attributes set by \<^verbatim>\<open>__init__\<close> from the command line and never changed;
  \<open>output_dir\<close> is the path as \<^verbatim>\<open>pathlib\<close> prints it.\<close>

record config =
  output_dir :: string
  fuzzer_stats_file :: string
  max_time_without_finds :: int
  check_interval :: int

text \<open>An entry of the queue of \<^verbatim>\<open>sched.scheduler\<close>; the action is always
  \<^verbatim>\<open>check_fuzzer_status\<close>.\<close>

record event =
  ev_time :: real
  ev_priority :: nat

text \<open>
  The attributes that change: \<^verbatim>\<open>last_fuzzer_data\<close>, a dictionary or \<^verbatim>\<open>None\<close>
  (\<open>None\<close> here; \<open>Some []\<close> is the empty dictionary), and the scheduler's queue.
\<close>

record monitor =
  last_fuzzer_data :: "stats option"
  queue :: "event list"

definition init :: monitor where
  "init = \<lparr>last_fuzzer_data = Some [], queue = []\<rparr>"

subsection \<open>Output\<close>

text \<open>
  The lines given to \<^verbatim>\<open>logging\<close>, one constructor for each call in the source.
  The level is INFO, so the one \<^verbatim>\<open>logging.debug\<close> call prints nothing and has no
  constructor. \<open>message\<close> is the text of an INFO line. The two ERROR lines keep the
  two parts of the path and the exception object.
\<close>

datatype info =
    Summary string string string int int
  | Exiting int
  | Stopping int
  | Header
  | Row string string string string string string

datatype log_line =
    Error_missing string string
  | Error_reading string string exn
  | Info info

text \<open>What a call does to the outside, in order: a line logged, a SIGTERM delivered.\<close>

datatype effect = Log log_line | Kill int

fun digits :: "nat \<Rightarrow> string" where
  "digits n = (if n < 10 then [char_of (48 + n)] else digits (n div 10) @ [char_of (48 + n mod 10)])"

declare digits.simps [simp del]

definition str_int :: "int \<Rightarrow> string" where
  "str_int i = (if i < 0 then CHR ''-'' # digits (nat (- i)) else digits (nat i))"

text \<open>\<^verbatim>\<open>f"{i:,}"\<close>: a comma before every group of three digits, counted from the right.
  Every integer that is printed was made by \<^verbatim>\<open>int\<close> from a string under the digit
  limit, so the limit does not apply again on the way back.\<close>

fun commas_rev :: "string \<Rightarrow> string" where
  "commas_rev (a # b # c # d # ds) = a # b # c # CHR '','' # commas_rev (d # ds)"
| "commas_rev ds = ds"

definition format_comma :: "int \<Rightarrow> string" where
  "format_comma i =
     (let body = rev (commas_rev (rev (digits (nat \<bar>i\<bar>))))
      in if i < 0 then CHR ''-'' # body else body)"

text \<open>\<^verbatim>\<open>f"{s:<w}"\<close>: spaces on the right up to the width, nothing cut.\<close>

definition ljust :: "nat \<Rightarrow> string \<Rightarrow> string" where
  "ljust w s = s @ replicate (w - length s) CHR '' ''"

definition row_text :: "string \<Rightarrow> string \<Rightarrow> string \<Rightarrow> string \<Rightarrow> string \<Rightarrow> string \<Rightarrow> string" where
  "row_text a b c d e f =
     ''| '' @ ljust 20 a @ '' | '' @ ljust 20 b @ '' | '' @ ljust 13 c @ '' | '' @
     ljust 13 d @ '' | '' @ ljust 11 e @ '' | '' @ ljust 13 f @ '' |''"

fun message :: "info \<Rightarrow> string" where
  "message (Summary now dir file mx iv) =
     ''Current Time: '' @ now @ '', Output Dir: '' @ dir @ '', Fuzzer Stats: '' @ file @
     '', Max Time Without Finds: '' @ str_int mx @ '', Check Interval: '' @ str_int iv"
| "message (Exiting t) =
     ''Time since last new path: '' @ str_int t @ '' seconds. No new paths found. Exiting.''"
| "message (Stopping pid) = ''Stopping afl-fuzz process with PID '' @ str_int pid"
| "message Header =
     row_text ''Current Time'' ''Last Find'' ''Corpus Count'' ''Saved Crashes'' ''Saved Hangs''
       ''Execs Done''"
| "message (Row a b c d e f) = row_text a b c d e f"

section \<open>\<^verbatim>\<open>read_fuzzer_file\<close>\<close>

text \<open>
  A text file opened with \<^verbatim>\<open>open("r")\<close> translates \<^verbatim>\<open>\r\n\<close> and a lone \<^verbatim>\<open>\r\<close> to
  \<^verbatim>\<open>\n\<close>, and \<^verbatim>\<open>for line in file\<close> yields the pieces ending at each \<^verbatim>\<open>\n\<close>, the
  \<^verbatim>\<open>\n\<close> included, and a last piece without one when the text does not end in \<^verbatim>\<open>\n\<close>.
\<close>

fun universal_newlines :: "string \<Rightarrow> string" where
  "universal_newlines [] = []"
| "universal_newlines [c] = [if c = CHR 0x0D then CHR 0x0A else c]"
| "universal_newlines (c # d # cs) =
     (if c = CHR 0x0D
      then CHR 0x0A # (if d = CHR 0x0A then universal_newlines cs else universal_newlines (d # cs))
      else c # universal_newlines (d # cs))"

fun lines_acc :: "string \<Rightarrow> string \<Rightarrow> string list" where
  "lines_acc cur [] = (if cur = [] then [] else [rev cur])"
| "lines_acc cur (c # cs) =
     (if c = CHR 0x0A then rev (c # cur) # lines_acc [] cs else lines_acc (c # cur) cs)"

definition file_lines :: "string \<Rightarrow> string list" where
  "file_lines text = lines_acc [] (universal_newlines text)"

text \<open>
  The body of the loop (lines 28 to 30). The unpacking \<^verbatim>\<open>key, value = ...\<close> raises
  ValueError unless the split has two parts; \<^verbatim>\<open>int\<close> is applied to \<^verbatim>\<open>value\<close> as
  split, the test \<^verbatim>\<open>isdigit\<close> to \<^verbatim>\<open>value.strip()\<close>. Assigning to a key keeps the
  key's place in the dictionary when it is there already and appends it otherwise.
\<close>

definition store_line :: "nat \<Rightarrow> stats \<Rightarrow> string \<Rightarrow> exn + stats" where
  "store_line maxd fuzzer_stats line =
     (if CHR '':'' \<in> set line then
        (case split_colon (strip line) of
           [key, val] \<Rightarrow>
             (if isdigit (strip val)
              then bind (py_int maxd val)
                     (\<lambda>n. Inr (AList.update (strip key) (IntVal n) fuzzer_stats))
              else Inr (AList.update (strip key) (StrVal (strip val)) fuzzer_stats))
         | _ \<Rightarrow> Inl ValueError)
      else Inr fuzzer_stats)"

fun store_lines :: "nat \<Rightarrow> stats \<Rightarrow> string list \<Rightarrow> exn + stats" where
  "store_lines maxd fuzzer_stats [] = Inr fuzzer_stats"
| "store_lines maxd fuzzer_stats (line # rest) =
     (case store_line maxd fuzzer_stats line of
        Inl x \<Rightarrow> Inl x
      | Inr fuzzer_stats' \<Rightarrow> store_lines maxd fuzzer_stats' rest)"

text \<open>The body of the \<^verbatim>\<open>try\<close> (lines 26 to 30): it raises what opening or reading
  raises, or what a line raises.\<close>

definition parse_file :: "env \<Rightarrow> exn + stats" where
  "parse_file e =
     bind (stats_file e) (\<lambda>text. store_lines (int_max_str_digits e) [] (file_lines text))"

text \<open>The two handlers (lines 31 to 36) return \<^verbatim>\<open>None\<close>; every member of \<open>exn\<close>
  that opening, reading or a line can raise is an \<^verbatim>\<open>Exception\<close>.\<close>

definition read_fuzzer_file :: "config \<Rightarrow> env \<Rightarrow> effect list \<times> stats option" where
  "read_fuzzer_file cfg e =
     (case parse_file e of
        Inl x \<Rightarrow>
          (if x = FileNotFoundError
           then ([Log (Error_missing (output_dir cfg) (fuzzer_stats_file cfg))], None)
           else ([Log (Error_reading (output_dir cfg) (fuzzer_stats_file cfg) x)], None))
      | Inr fuzzer_stats \<Rightarrow> ([], Some fuzzer_stats))"

section \<open>\<^verbatim>\<open>get_afl_fuzz_pids\<close> and \<^verbatim>\<open>stop_fuzzer\<close>\<close>

text \<open>The comprehension \<^verbatim>\<open>[int(pid) for pid in pids]\<close>.\<close>

fun ints :: "nat \<Rightarrow> string list \<Rightarrow> exn + int list" where
  "ints maxd [] = Inr []"
| "ints maxd (pid # pids) =
     (case py_int maxd pid of
        Inl x \<Rightarrow> Inl x
      | Inr n \<Rightarrow> (case ints maxd pids of Inl x \<Rightarrow> Inl x | Inr ns \<Rightarrow> Inr (n # ns)))"

text \<open>Lines 42 to 46. The one handler is for \<^verbatim>\<open>subprocess.CalledProcessError\<close>, which
  \<^verbatim>\<open>check_output\<close> raises when the command exits with a status other than 0.\<close>

definition get_afl_fuzz_pids :: "env \<Rightarrow> exn + int list" where
  "get_afl_fuzz_pids e =
     (case bind (pgrep e) (\<lambda>out. ints (int_max_str_digits e) (split_ws out)) of
        Inl x \<Rightarrow> (if x = CalledProcessError then Inr [] else Inl x)
      | Inr pids \<Rightarrow> Inr pids)"

text \<open>The loop of lines 52 to 54: the line is logged, then the signal is sent; an
  exception of \<^verbatim>\<open>os.kill\<close> ends the loop with no signal delivered, and a signal
  to the monitor itself is delivered and ends the loop with the process.\<close>

fun kill_each :: "(int \<Rightarrow> sent) \<Rightarrow> int list \<Rightarrow> effect list \<times> (exn + unit)" where
  "kill_each kill [] = ([], Inr ())"
| "kill_each kill (pid # pids) =
     (case kill pid of
        Raised x \<Rightarrow> ([Log (Info (Stopping pid))], Inl x)
      | Ended \<Rightarrow> ([Log (Info (Stopping pid)), Kill pid], Inl Terminated)
      | Returned \<Rightarrow>
         (case kill_each kill pids of
            (fx, r) \<Rightarrow> (Log (Info (Stopping pid)) # Kill pid # fx, r)))"

definition stop_fuzzer :: "env \<Rightarrow> effect list \<times> (exn + unit)" where
  "stop_fuzzer e =
     (case get_afl_fuzz_pids e of
        Inl x \<Rightarrow> ([], Inl x)
      | Inr pids \<Rightarrow> kill_each (os_kill e) pids)"

section \<open>The scheduler's queue\<close>

text \<open>
  \<^verbatim>\<open>scheduler.enter(delay, priority, action)\<close> puts an event at
  \<^verbatim>\<open>time.time() + delay\<close> on the queue, which is ordered by time, then priority,
  then age.
\<close>

fun push :: "event \<Rightarrow> event list \<Rightarrow> event list" where
  "push ev [] = [ev]"
| "push ev (x # xs) =
     (if ev_time ev < ev_time x \<or> (ev_time ev = ev_time x \<and> ev_priority ev < ev_priority x)
      then ev # x # xs
      else x # push ev xs)"

definition enter :: "real \<Rightarrow> int \<Rightarrow> nat \<Rightarrow> event list \<Rightarrow> event list" where
  "enter now delay priority q = push \<lparr>ev_time = now + real_of_int delay, ev_priority = priority\<rparr> q"

section \<open>\<^verbatim>\<open>check_fuzzer_status\<close>\<close>

text \<open>\<^verbatim>\<open>d.get(k, dflt)\<close>, and the truth value of an integer or a string.\<close>

definition get :: "stats \<Rightarrow> string \<Rightarrow> pyval \<Rightarrow> pyval" where
  "get d k dflt = (case map_of d k of None \<Rightarrow> dflt | Some v \<Rightarrow> v)"

definition truthy :: "pyval \<Rightarrow> bool" where
  "truthy v = (case v of IntVal n \<Rightarrow> n \<noteq> 0 | StrVal s \<Rightarrow> s \<noteq> [])"

text \<open>Line 69: \<^verbatim>\<open>time.localtime\<close> raises TypeError on a string.\<close>

definition last_found_text :: "env \<Rightarrow> pyval \<Rightarrow> exn + string" where
  "last_found_text e last_find =
     (if truthy last_find
      then (case last_find of IntVal t \<Rightarrow> strftime_local e t | StrVal s \<Rightarrow> Inl TypeError)
      else Inr ''N/A'')"

text \<open>Lines 71 to 74, one column each.\<close>

definition count_text :: "nat \<Rightarrow> stats \<Rightarrow> string \<Rightarrow> exn + string" where
  "count_text maxd d k =
     (case map_of d k of
        None \<Rightarrow> Inr ''N/A''
      | Some v \<Rightarrow> bind (int_of maxd v) (\<lambda>n. Inr (format_comma n)))"

text \<open>
  Lines 67 to 79. The columns are computed first, in the order of the source, and
  each may raise. Then the two conditions: \<^verbatim>\<open>self.last_fuzzer_data and ...\<close> is false
  for \<^verbatim>\<open>None\<close> and for the empty dictionary without looking at the comparison; the
  \<^verbatim>\<open>elif\<close> calls \<^verbatim>\<open>.get\<close> on \<^verbatim>\<open>self.last_fuzzer_data\<close>, which raises AttributeError
  when that is \<^verbatim>\<open>None\<close>. The result is the lines to log.
\<close>

definition report :: "env \<Rightarrow> stats option \<Rightarrow> stats \<Rightarrow> exn + info list" where
  "report e prev d =
     (let last_find = get d ''last_find'' (IntVal 0);
          curr_time = strftime_now e
      in bind (last_found_text e last_find) (\<lambda>last_found.
         bind (count_text (int_max_str_digits e) d ''corpus_count'') (\<lambda>corpus.
         bind (count_text (int_max_str_digits e) d ''unique_crashes'') (\<lambda>crashes.
         bind (count_text (int_max_str_digits e) d ''unique_hangs'') (\<lambda>hangs.
         bind (count_text (int_max_str_digits e) d ''execs_done'') (\<lambda>execs.
           (case prev of
              None \<Rightarrow> Inl AttributeError
            | Some p \<Rightarrow>
               if p \<noteq> [] \<and> Some last_find \<noteq> map_of p ''last_find''
               then Inr [Row curr_time last_found corpus crashes hangs execs]
               else if map_of p ''last_find'' = None
               then Inr [Header, Row curr_time last_found corpus crashes hangs execs]
               else Inr [])))))))"

text \<open>
  The method returns in two places: at line 65 after stopping the fuzzer (\<open>Stop\<close>),
  and at the end, after lines 83 and 84 have stored the data just read and entered
  the next event (\<open>Continue\<close>). The result is everything logged and signalled, in
  order, and either the exception that left the method or the new state with the
  place of return.
\<close>

datatype verdict = Continue | Stop

definition check_fuzzer_status ::
    "config \<Rightarrow> env \<Rightarrow> monitor \<Rightarrow> effect list \<times> (exn + monitor \<times> verdict)" where
  "check_fuzzer_status cfg e m =
     (case read_fuzzer_file cfg e of
        (fx, fuzzer_data) \<Rightarrow>
          (let rescheduled =
                 m\<lparr>last_fuzzer_data := fuzzer_data,
                   queue := enter (time_time e) (check_interval cfg) 1 (queue m)\<rparr>
           in case fuzzer_data of
                None \<Rightarrow> (fx, Inr (rescheduled, Continue))
              | Some d \<Rightarrow>
                 (case int_of (int_max_str_digits e) (get d ''time_wo_finds'' (IntVal 0)) of
                    Inl x \<Rightarrow> (fx, Inl x)
                  | Inr time_wo_finds \<Rightarrow>
                     if time_wo_finds > max_time_without_finds cfg
                     then (case stop_fuzzer e of
                             (fx', r) \<Rightarrow>
                               (fx @ Log (Info (Exiting time_wo_finds)) # fx',
                                case r of Inl x \<Rightarrow> Inl x | Inr u \<Rightarrow> Inr (m, Stop)))
                     else (case report e (last_fuzzer_data m) d of
                             Inl x \<Rightarrow> (fx, Inl x)
                           | Inr ls \<Rightarrow>
                               (fx @ map (\<lambda>l. Log (Info l)) ls, Inr (rescheduled, Continue))))))"

section \<open>\<^verbatim>\<open>run\<close>\<close>

text \<open>
  \<^verbatim>\<open>scheduler.run()\<close> takes the first event off the queue, waits for its time and
  calls the action, until the queue is empty or the action raises. The list
  \<open>es\<close> gives the environment of each call in turn; when it is used up and an
  event is still on the queue the run is \<open>Pending\<close>, so a finite list gives a
  prefix of a run that may go on for ever.
\<close>

datatype status = Pending | Finished | Crashed exn

fun scheduler_run :: "config \<Rightarrow> env list \<Rightarrow> monitor \<Rightarrow> effect list \<times> monitor \<times> status" where
  "scheduler_run cfg [] m = ([], m, if queue m = [] then Finished else Pending)"
| "scheduler_run cfg (e # es) m =
     (case queue m of
        [] \<Rightarrow> ([], m, Finished)
      | ev # q \<Rightarrow>
         (case check_fuzzer_status cfg e (m\<lparr>queue := q\<rparr>) of
            (fx, Inl x) \<Rightarrow> (fx, m\<lparr>queue := q\<rparr>, Crashed x)
          | (fx, Inr (m', v)) \<Rightarrow>
              (case scheduler_run cfg es m' of (fx', r) \<Rightarrow> (fx @ fx', r))))"

text \<open>Lines 87 to 91: the summary line, the first event after 10 seconds, the loop.\<close>

definition run :: "config \<Rightarrow> env \<Rightarrow> env list \<Rightarrow> monitor \<Rightarrow> effect list \<times> monitor \<times> status" where
  "run cfg e es m =
     (case scheduler_run cfg es (m\<lparr>queue := enter (time_time e) 10 1 (queue m)\<rparr>) of
        (fx, r) \<Rightarrow>
          (Log (Info (Summary (strftime_now e) (output_dir cfg) (fuzzer_stats_file cfg)
                        (max_time_without_finds cfg) (check_interval cfg))) # fx, r))"

section \<open>Sample inputs\<close>

text \<open>The defaults of the command line, and an environment in which \<^verbatim>\<open>pgrep\<close> finds
  no process, every signal is delivered and the clock reads 100; the outcome of
  reading the status file is the argument.\<close>

definition sample_config :: config where
  "sample_config =
     \<lparr>output_dir = ''/path/to/fuzzer/output'', fuzzer_stats_file = ''fuzzer_stats'',
      max_time_without_finds = 3600, check_interval = 60\<rparr>"

definition sample_env :: "exn + string \<Rightarrow> env" where
  "sample_env f =
     \<lparr>int_max_str_digits = 4300, stats_file = f, strftime_now = ''2024-01-01 00:00:00'',
      strftime_local = (\<lambda>t. Inr ''2023-11-14 22:13:20''), pgrep = Inl CalledProcessError,
      os_kill = (\<lambda>pid. Returned), time_time = 100\<rparr>"

section \<open>Properties\<close>

subsection \<open>Reading\<close>

lemma parse_file_raises: "stats_file e = Inl x \<Longrightarrow> parse_file e = Inl x"
  by (simp add: parse_file_def bind_def)

lemma read_fuzzer_file_Some:
  "read_fuzzer_file cfg e = (fx, Some d) \<Longrightarrow> fx = [] \<and> parse_file e = Inr d"
  by (auto simp: read_fuzzer_file_def split: sum.splits if_splits)

lemma read_fuzzer_file_raises:
  "parse_file e = Inl x \<Longrightarrow>
   read_fuzzer_file cfg e =
     ([Log (if x = FileNotFoundError
            then Error_missing (output_dir cfg) (fuzzer_stats_file cfg)
            else Error_reading (output_dir cfg) (fuzzer_stats_file cfg) x)], None)"
  by (simp add: read_fuzzer_file_def)

subsection \<open>The decision to stop\<close>

lemma kill_each_no_exiting: "Log (Info (Exiting t)) \<notin> set (fst (kill_each k pids))"
  by (induction pids) (auto split: sent.splits prod.splits)

lemma stop_fuzzer_no_exiting: "Log (Info (Exiting t)) \<notin> set (fst (stop_fuzzer e))"
  by (simp add: stop_fuzzer_def kill_each_no_exiting split: sum.splits)

lemma report_no_exiting: "report e prev d = Inr ls \<Longrightarrow> Exiting t \<notin> set ls"
  by (auto simp: report_def bind_def Let_def split: sum.splits option.splits if_splits)

text \<open>
  C1. When the status file has been read and \<^verbatim>\<open>int\<close> of its \<^verbatim>\<open>time_wo_finds\<close> (0 when
  the key is absent) is \<open>t\<close>, the stop branch is taken, which is seen by its notice
  in the log, exactly when \<open>t\<close> is strictly greater than
  \<^verbatim>\<open>max_time_without_finds\<close>; and whenever the call returns, it returns at the stop
  exactly in that case. So a value equal to the threshold continues.
\<close>

theorem verdict_stop_iff_exceeds:
  assumes rd: "read_fuzzer_file cfg e = (fx, Some d)"
      and conv: "int_of (int_max_str_digits e) (get d ''time_wo_finds'' (IntVal 0)) = Inr t"
  shows "(Log (Info (Exiting t)) \<in> set (fst (check_fuzzer_status cfg e m))
            \<longleftrightarrow> max_time_without_finds cfg < t)
       \<and> (\<forall>m' v. snd (check_fuzzer_status cfg e m) = Inr (m', v)
            \<longrightarrow> (v = Stop \<longleftrightarrow> max_time_without_finds cfg < t))"
proof -
  have fx: "fx = []" using rd by (simp add: read_fuzzer_file_Some)
  show ?thesis
  proof (cases "max_time_without_finds cfg < t")
    case True
    then show ?thesis using rd conv
      by (auto simp: check_fuzzer_status_def split: prod.splits sum.splits)
  next
    case False
    then show ?thesis using rd conv fx
      by (auto simp: check_fuzzer_status_def image_iff split: prod.splits sum.splits
               dest: report_no_exiting)
  qed
qed

theorem verdict_stop_iff_exceeds_witness:
  "read_fuzzer_file sample_config (sample_env (Inr ''time_wo_finds: 3600'')) =
     ([], Some [(''time_wo_finds'', IntVal 3600)])
   \<and> int_of (int_max_str_digits (sample_env (Inr ''time_wo_finds: 3600'')))
        (get [(''time_wo_finds'', IntVal 3600)] ''time_wo_finds'' (IntVal 0)) = Inr 3600
   \<and> Log (Info (Exiting 3600)) \<notin>
        set (fst (check_fuzzer_status sample_config (sample_env (Inr ''time_wo_finds: 3600'')) init))
   \<and> snd (check_fuzzer_status sample_config (sample_env (Inr ''time_wo_finds: 3600'')) init) =
        Inr (\<lparr>last_fuzzer_data = Some [(''time_wo_finds'', IntVal 3600)],
              queue = [\<lparr>ev_time = 160, ev_priority = 1\<rparr>]\<rparr>, Continue)
   \<and> Continue \<noteq> Stop"
proof -
  have ret: "snd (check_fuzzer_status sample_config (sample_env (Inr ''time_wo_finds: 3600'')) init) =
        Inr (\<lparr>last_fuzzer_data = Some [(''time_wo_finds'', IntVal 3600)],
              queue = [\<lparr>ev_time = 160, ev_priority = 1\<rparr>]\<rparr>, Continue)"
    by code_simp
  have rd: "read_fuzzer_file sample_config (sample_env (Inr ''time_wo_finds: 3600'')) =
     ([], Some [(''time_wo_finds'', IntVal 3600)])"
    by code_simp
  have conv: "int_of (int_max_str_digits (sample_env (Inr ''time_wo_finds: 3600'')))
        (get [(''time_wo_finds'', IntVal 3600)] ''time_wo_finds'' (IntVal 0)) = Inr 3600"
    by code_simp
  have "\<not> max_time_without_finds sample_config < 3600"
    by (simp add: sample_config_def)
  with verdict_stop_iff_exceeds [OF rd conv, of init] rd conv ret show ?thesis by simp
qed

subsection \<open>The stored data\<close>

text \<open>
  C2, as the code has it. A call that returns at the end has stored what it read,
  the dictionary or \<^verbatim>\<open>None\<close>, in \<^verbatim>\<open>last_fuzzer_data\<close>; a call that returns at the
  stop leaves \<^verbatim>\<open>last_fuzzer_data\<close> as it was, since line 65 returns before line 83.
\<close>

theorem stored_on_continue_kept_on_stop:
  "check_fuzzer_status cfg e m = (fx, Inr (m', v)) \<Longrightarrow>
     (v = Continue \<longrightarrow> last_fuzzer_data m' = snd (read_fuzzer_file cfg e))
   \<and> (v = Stop \<longrightarrow> last_fuzzer_data m' = last_fuzzer_data m)"
  by (auto simp: check_fuzzer_status_def Let_def
           split: prod.splits option.splits sum.splits if_splits)

theorem stored_on_continue_kept_on_stop_witness:
  "check_fuzzer_status sample_config (sample_env (Inl FileNotFoundError)) init =
     ([Log (Error_missing ''/path/to/fuzzer/output'' ''fuzzer_stats'')],
      Inr (\<lparr>last_fuzzer_data = None, queue = [\<lparr>ev_time = 160, ev_priority = 1\<rparr>]\<rparr>,
           Continue))
   \<and> last_fuzzer_data \<lparr>last_fuzzer_data = None, queue = [\<lparr>ev_time = 160, ev_priority = 1\<rparr>]\<rparr>
       = snd (read_fuzzer_file sample_config (sample_env (Inl FileNotFoundError)))"
proof -
  have run: "check_fuzzer_status sample_config (sample_env (Inl FileNotFoundError)) init =
     ([Log (Error_missing ''/path/to/fuzzer/output'' ''fuzzer_stats'')],
      Inr (\<lparr>last_fuzzer_data = None, queue = [\<lparr>ev_time = 160, ev_priority = 1\<rparr>]\<rparr>,
           Continue))"
    by code_simp
  from stored_on_continue_kept_on_stop [OF run] run show ?thesis by simp
qed

text \<open>With a status file that says 4000 seconds against a threshold of 3600 the call
  returns at the stop, and the stored data are still the empty dictionary of the
  start, not the dictionary just read.\<close>

theorem stop_does_not_store:
  "snd (check_fuzzer_status sample_config (sample_env (Inr ''time_wo_finds: 4000'')) init)
     = Inr (init, Stop)
   \<and> last_fuzzer_data init
     \<noteq> snd (read_fuzzer_file sample_config (sample_env (Inr ''time_wo_finds: 4000'')))"
  by code_simp

subsection \<open>What is printed\<close>

lemma report_absent_raises: "\<exists>x. report e None d = Inl x"
  by (auto simp: report_def bind_def Let_def split: sum.splits)

lemma report_first_read:
  "report e (Some []) d = Inr ls \<Longrightarrow> \<exists>a b c d' e' f. ls = [Header, Row a b c d' e' f]"
  by (auto simp: report_def bind_def Let_def split: sum.splits)

lemma check_after_failed_read_raises:
  assumes "read_fuzzer_file cfg e = (fx, Some d)"
      and "int_of (int_max_str_digits e) (get d ''time_wo_finds'' (IntVal 0)) = Inr t"
      and "t \<le> max_time_without_finds cfg"
      and "last_fuzzer_data m = None"
  shows "\<exists>x. check_fuzzer_status cfg e m = ([], Inl x)"
proof -
  have fx: "fx = []" using assms(1) by (simp add: read_fuzzer_file_Some)
  obtain x where "report e None d = Inl x" using report_absent_raises by blast
  with assms fx show ?thesis by (simp add: check_fuzzer_status_def)
qed

text \<open>
  C3. The claim asks for a header and a data row, and no exception, also when the
  stored data are \<^verbatim>\<open>None\<close> because the read before failed. The code raises there:
  \<^verbatim>\<open>None\<close> is false in the first condition, and the \<^verbatim>\<open>elif\<close> calls \<^verbatim>\<open>.get\<close> on
  it. First a single call with \<^verbatim>\<open>None\<close> stored; then the whole run in which the
  file is missing at the first check and present at the second.
\<close>

theorem absent_previous_data_raises:
  "check_fuzzer_status sample_config
     (sample_env (Inr (''last_find: 1700000000'' @ [CHR 0x0A] @ ''corpus_count: 5'' @ [CHR 0x0A])))
     (init\<lparr>last_fuzzer_data := None\<rparr>) = ([], Inl AttributeError)
   \<and> run sample_config (sample_env (Inl FileNotFoundError))
       [sample_env (Inl FileNotFoundError),
        sample_env (Inr (''last_find: 1700000000'' @ [CHR 0x0A] @ ''corpus_count: 5'' @ [CHR 0x0A]))]
       init =
      ([Log (Info (Summary ''2024-01-01 00:00:00'' ''/path/to/fuzzer/output'' ''fuzzer_stats''
               3600 60)),
        Log (Error_missing ''/path/to/fuzzer/output'' ''fuzzer_stats'')],
       \<lparr>last_fuzzer_data = None, queue = []\<rparr>, Crashed AttributeError)"
  by code_simp

lemma report_previous_without_last_find:
  "p \<noteq> [] \<Longrightarrow> map_of p ''last_find'' = None \<Longrightarrow> report e (Some p) d = Inr ls \<Longrightarrow>
   \<exists>a b c d' e' f. ls = [Row a b c d' e' f]"
  by (auto simp: report_def bind_def Let_def split: sum.splits)




subsection \<open>Parsing\<close>

lemma in_set_dropWhile: "x \<in> set xs \<Longrightarrow> \<not> P x \<Longrightarrow> x \<in> set (dropWhile P xs)"
  by (induction xs) auto

lemma colon_in_strip: "CHR '':'' \<in> set line \<Longrightarrow> CHR '':'' \<in> set (strip line)"
proof -
  assume a: "CHR '':'' \<in> set line"
  have n: "\<not> py_isspace CHR '':''" by code_simp
  from a n have "CHR '':'' \<in> set (rev (dropWhile py_isspace line))"
    by (simp add: in_set_dropWhile)
  with n have "CHR '':'' \<in> set (dropWhile py_isspace (rev (dropWhile py_isspace line)))"
    by (rule in_set_dropWhile [rotated])
  then show ?thesis by (simp add: strip_def)
qed

lemma store_line_without_colon:
  "CHR '':'' \<notin> set line \<Longrightarrow> store_line maxd fuzzer_stats line = Inr fuzzer_stats"
  by (simp add: store_line_def)

lemma store_line_with_colon:
  "CHR '':'' \<in> set line \<Longrightarrow>
   store_line maxd fuzzer_stats line =
     (let key = takeWhile (\<lambda>c. c \<noteq> CHR '':'') (strip line);
          val = tl (dropWhile (\<lambda>c. c \<noteq> CHR '':'') (strip line))
      in if isdigit (strip val)
         then bind (py_int maxd val) (\<lambda>n. Inr (AList.update (strip key) (IntVal n) fuzzer_stats))
         else Inr (AList.update (strip key) (StrVal (strip val)) fuzzer_stats))"
  by (simp add: store_line_def split_colon_def colon_in_strip Let_def)

text \<open>
  C5. The claim has a value that is not made of decimal digits stored as a string,
  and no failure of parsing on account of a value. The code tests the value with
  \<^verbatim>\<open>isdigit\<close>, which also holds for the superscript two (U+00B2), and then calls
  \<^verbatim>\<open>int\<close>, which rejects it; the ValueError is caught by the second handler and the
  whole read returns \<^verbatim>\<open>None\<close>.
\<close>

theorem superscript_digit_fails_read:
  "isdigit [CHR 0xB2] \<and> \<not> is_ascii_digit (CHR 0xB2)
   \<and> read_fuzzer_file cfg (e\<lparr>stats_file := Inr (''execs_done: '' @ [CHR 0xB2])\<rparr>) =
       ([Log (Error_reading (output_dir cfg) (fuzzer_stats_file cfg) ValueError)], None)"
proof -
  have a: "isdigit [CHR 0xB2]" "\<not> is_ascii_digit (CHR 0xB2)" by code_simp+
  have "store_lines maxd [] (file_lines (''execs_done: '' @ [CHR 0xB2])) = Inl ValueError" for maxd
    by code_simp
  then show ?thesis using a
    by (simp add: read_fuzzer_file_def parse_file_def bind_def)
qed

text \<open>
  C10. The dictionary that \<^verbatim>\<open>read_fuzzer_file\<close> returns for a text depends on the
  text (and the interpreter's digit limit) alone: not on the configuration, the
  clock or anything else of the environment, and the method changes no attribute.
  Two reads of the same text give equal dictionaries.
\<close>

theorem read_fuzzer_file_deterministic:
  "snd (read_fuzzer_file cfg (e\<lparr>stats_file := Inr text\<rparr>)) =
   snd (read_fuzzer_file cfg'
          (e'\<lparr>stats_file := Inr text, int_max_str_digits := int_max_str_digits e\<rparr>))"
  by (simp add: read_fuzzer_file_def parse_file_def bind_def split: sum.splits)

subsection \<open>Failures\<close>

text \<open>
  C6. When the body of the \<^verbatim>\<open>try\<close> raises \<open>x\<close> (the file is missing, or opening,
  reading or a line raises anything else), \<^verbatim>\<open>read_fuzzer_file\<close> logs one error line
  and returns \<^verbatim>\<open>None\<close>; the check logs nothing more, stores \<^verbatim>\<open>None\<close>, enters the next
  event \<^verbatim>\<open>check_interval\<close> after the clock and returns at the end; and the
  scheduler goes on with the next call.
\<close>

theorem failed_read_continues:
  assumes "parse_file e = Inl x"
  shows "(let line = Log (if x = FileNotFoundError
                          then Error_missing (output_dir cfg) (fuzzer_stats_file cfg)
                          else Error_reading (output_dir cfg) (fuzzer_stats_file cfg) x);
              m' = \<lparr>last_fuzzer_data = None,
                    queue = enter (time_time e) (check_interval cfg) 1 q\<rparr>
          in read_fuzzer_file cfg e = ([line], None)
           \<and> check_fuzzer_status cfg e \<lparr>last_fuzzer_data = prev, queue = q\<rparr>
               = ([line], Inr (m', Continue))
           \<and> scheduler_run cfg (e # es) \<lparr>last_fuzzer_data = prev, queue = ev # q\<rparr>
               = (line # fst (scheduler_run cfg es m'), snd (scheduler_run cfg es m')))"
  using assms
  by (simp add: Let_def check_fuzzer_status_def read_fuzzer_file_raises split: prod.splits)

theorem failed_read_continues_witness:
  "parse_file (sample_env (Inl FileNotFoundError)) = Inl FileNotFoundError
   \<and> check_fuzzer_status sample_config (sample_env (Inl FileNotFoundError))
        \<lparr>last_fuzzer_data = Some [(''corpus_count'', IntVal 10)], queue = []\<rparr>
       = ([Log (Error_missing ''/path/to/fuzzer/output'' ''fuzzer_stats'')],
          Inr (\<lparr>last_fuzzer_data = None, queue = [\<lparr>ev_time = 160, ev_priority = 1\<rparr>]\<rparr>,
               Continue))"
proof -
  have p: "parse_file (sample_env (Inl FileNotFoundError)) = Inl FileNotFoundError"
    by code_simp
  have q: "enter (time_time (sample_env (Inl FileNotFoundError))) (check_interval sample_config) 1 []
      = [\<lparr>ev_time = 160, ev_priority = 1\<rparr>]"
    by code_simp
  from failed_read_continues [OF p, of sample_config "[]" "Some [(''corpus_count'', IntVal 10)]"] p q
  show ?thesis by (simp add: Let_def sample_config_def)
qed

text \<open>
  C7. The line \<^verbatim>\<open>time_wo_finds: 12:30\<close> is read without error, as a string. Line 61
  then raises ValueError; no handler is around it, so the exception leaves
  \<^verbatim>\<open>check_fuzzer_status\<close> and ends \<^verbatim>\<open>scheduler.run()\<close>.
\<close>

theorem non_digit_time_wo_finds_raises:
  "read_fuzzer_file cfg (e\<lparr>stats_file := Inr ''time_wo_finds: 12:30''\<rparr>) =
     ([], Some [(''time_wo_finds'', StrVal ''12:30'')])
   \<and> check_fuzzer_status cfg (e\<lparr>stats_file := Inr ''time_wo_finds: 12:30''\<rparr>) m =
     ([], Inl ValueError)
   \<and> scheduler_run cfg (e\<lparr>stats_file := Inr ''time_wo_finds: 12:30''\<rparr> # es) (m\<lparr>queue := ev # q\<rparr>) =
     ([], m\<lparr>queue := q\<rparr>, Crashed ValueError)"
proof -
  have p: "store_lines maxd [] (file_lines ''time_wo_finds: 12:30'') =
        Inr [(''time_wo_finds'', StrVal ''12:30'')]" for maxd
    by code_simp
  have g: "get [(''time_wo_finds'', StrVal ''12:30'')] ''time_wo_finds'' (IntVal 0) = StrVal ''12:30''"
    by code_simp
  have i: "py_int maxd ''12:30'' = Inl ValueError" for maxd
    apply code_simp
    apply (simp add: c_isspace_def)
    done
  have rd: "read_fuzzer_file cfg (e\<lparr>stats_file := Inr ''time_wo_finds: 12:30''\<rparr>) =
     ([], Some [(''time_wo_finds'', StrVal ''12:30'')])"
    by (simp add: read_fuzzer_file_def parse_file_def bind_def p)
  have ck: "check_fuzzer_status cfg (e\<lparr>stats_file := Inr ''time_wo_finds: 12:30''\<rparr>) m =
     ([], Inl ValueError)" for m
    by (simp add: check_fuzzer_status_def rd g int_of_def i)
  show ?thesis by (simp add: rd ck)
qed

subsection \<open>Locating and stopping the processes\<close>

lemma py_int_raises: "py_int maxd s = Inl x \<Longrightarrow> x = ValueError"
  by (auto simp: py_int_def Let_def split: option.splits if_splits)

lemma ints_raises: "ints maxd pids = Inl x \<Longrightarrow> x = ValueError"
  by (induction pids arbitrary: x) (auto split: sum.splits dest: py_int_raises)

lemma get_afl_fuzz_pids_eq:
  "get_afl_fuzz_pids e =
     (case pgrep e of
        Inl x \<Rightarrow> (if x = CalledProcessError then Inr [] else Inl x)
      | Inr out \<Rightarrow> ints (int_max_str_digits e) (split_ws out))"
  by (auto simp: get_afl_fuzz_pids_def bind_def split: sum.splits dest: ints_raises)

lemma kill_each_all:
  "\<forall>pid\<in>set pids. kill pid = Returned \<Longrightarrow>
   kill_each kill pids = (concat (map (\<lambda>pid. [Log (Info (Stopping pid)), Kill pid]) pids), Inr ())"
  by (induction pids) auto

lemma kill_each_raised:
  "\<forall>pid\<in>set ok. kill pid = Returned \<Longrightarrow> kill p = Raised x \<Longrightarrow>
   kill_each kill (ok @ p # rest) =
     (concat (map (\<lambda>pid. [Log (Info (Stopping pid)), Kill pid]) ok) @ [Log (Info (Stopping p))],
      Inl x)"
  by (induction ok) auto

lemma kill_each_ended:
  "\<forall>pid\<in>set ok. kill pid = Returned \<Longrightarrow> kill p = Ended \<Longrightarrow>
   kill_each kill (ok @ p # rest) =
     (concat (map (\<lambda>pid. [Log (Info (Stopping pid)), Kill pid]) ok)
        @ [Log (Info (Stopping p)), Kill p],
      Inl Terminated)"
  by (induction ok) auto

text \<open>
  C8, as the code has it. When \<^verbatim>\<open>pgrep\<close> exits with a status other than 0, which
  raises CalledProcessError, the list of processes is empty and \<^verbatim>\<open>stop_fuzzer\<close>
  does nothing. Every other exception of the search leaves \<^verbatim>\<open>get_afl_fuzz_pids\<close>
  and \<^verbatim>\<open>stop_fuzzer\<close>, and so does a ValueError of \<^verbatim>\<open>int\<close> on the output. When
  the list is \<open>pids\<close> and every \<^verbatim>\<open>os.kill\<close> returns, \<^verbatim>\<open>stop_fuzzer\<close> logs and signals
  each of them in order, and nothing when the list is empty. The first \<^verbatim>\<open>os.kill\<close>
  that does not return ends the loop: the identifiers before it have been
  signalled, those after it are not, and the exception (or the end of the monitor
  itself) leaves \<^verbatim>\<open>stop_fuzzer\<close>.
\<close>

theorem locate_and_terminate:
  "(pgrep e = Inl CalledProcessError \<longrightarrow>
      get_afl_fuzz_pids e = Inr [] \<and> stop_fuzzer e = ([], Inr ()))
   \<and> (\<forall>x. pgrep e = Inl x \<and> x \<noteq> CalledProcessError \<longrightarrow>
      get_afl_fuzz_pids e = Inl x \<and> stop_fuzzer e = ([], Inl x))
   \<and> (\<forall>out. pgrep e = Inr out \<longrightarrow>
      get_afl_fuzz_pids e = ints (int_max_str_digits e) (split_ws out))
   \<and> (\<forall>x. get_afl_fuzz_pids e = Inl x \<longrightarrow> stop_fuzzer e = ([], Inl x))
   \<and> (get_afl_fuzz_pids e = Inr pids \<and> (\<forall>pid\<in>set pids. os_kill e pid = Returned) \<longrightarrow>
      stop_fuzzer e =
        (concat (map (\<lambda>pid. [Log (Info (Stopping pid)), Kill pid]) pids), Inr ()))
   \<and> (\<forall>ok p rest x. get_afl_fuzz_pids e = Inr (ok @ p # rest)
        \<and> (\<forall>pid\<in>set ok. os_kill e pid = Returned) \<and> os_kill e p = Raised x \<longrightarrow>
      stop_fuzzer e =
        (concat (map (\<lambda>pid. [Log (Info (Stopping pid)), Kill pid]) ok)
           @ [Log (Info (Stopping p))], Inl x))
   \<and> (\<forall>ok p rest. get_afl_fuzz_pids e = Inr (ok @ p # rest)
        \<and> (\<forall>pid\<in>set ok. os_kill e pid = Returned) \<and> os_kill e p = Ended \<longrightarrow>
      stop_fuzzer e =
        (concat (map (\<lambda>pid. [Log (Info (Stopping pid)), Kill pid]) ok)
           @ [Log (Info (Stopping p)), Kill p], Inl Terminated))"
proof -
  have 1: "get_afl_fuzz_pids e = Inr [] \<and> stop_fuzzer e = ([], Inr ())"
    if "pgrep e = Inl CalledProcessError"
    using that by (simp add: get_afl_fuzz_pids_eq stop_fuzzer_def)
  have 2: "get_afl_fuzz_pids e = Inl x \<and> stop_fuzzer e = ([], Inl x)"
    if "pgrep e = Inl x \<and> x \<noteq> CalledProcessError" for x
    using that by (simp add: get_afl_fuzz_pids_eq stop_fuzzer_def)
  have 3: "get_afl_fuzz_pids e = ints (int_max_str_digits e) (split_ws out)"
    if "pgrep e = Inr out" for out
    using that by (simp add: get_afl_fuzz_pids_eq)
  have 7: "stop_fuzzer e = ([], Inl x)" if "get_afl_fuzz_pids e = Inl x" for x
    using that by (simp add: stop_fuzzer_def)
  have 4: "stop_fuzzer e =
        (concat (map (\<lambda>pid. [Log (Info (Stopping pid)), Kill pid]) pids), Inr ())"
    if "get_afl_fuzz_pids e = Inr pids \<and> (\<forall>pid\<in>set pids. os_kill e pid = Returned)"
    using that by (simp add: stop_fuzzer_def kill_each_all)
  have 5: "stop_fuzzer e =
        (concat (map (\<lambda>pid. [Log (Info (Stopping pid)), Kill pid]) ok)
           @ [Log (Info (Stopping p))], Inl x)"
    if "get_afl_fuzz_pids e = Inr (ok @ p # rest)
        \<and> (\<forall>pid\<in>set ok. os_kill e pid = Returned) \<and> os_kill e p = Raised x" for ok p rest x
    using that by (simp add: stop_fuzzer_def kill_each_raised)
  have 6: "stop_fuzzer e =
        (concat (map (\<lambda>pid. [Log (Info (Stopping pid)), Kill pid]) ok)
           @ [Log (Info (Stopping p)), Kill p], Inl Terminated)"
    if "get_afl_fuzz_pids e = Inr (ok @ p # rest)
        \<and> (\<forall>pid\<in>set ok. os_kill e pid = Returned) \<and> os_kill e p = Ended" for ok p rest
    using that by (simp add: stop_fuzzer_def kill_each_ended)
  from 1 2 3 4 5 6 7 show ?thesis by blast
qed

theorem locate_and_terminate_witness:
  "pgrep (sample_env (Inl FileNotFoundError)) = Inl CalledProcessError
   \<and> stop_fuzzer (sample_env (Inl FileNotFoundError)) = ([], Inr ())
   \<and> stop_fuzzer ((sample_env (Inl FileNotFoundError))\<lparr>pgrep := Inl PermissionError\<rparr>)
       = ([], Inl PermissionError)
   \<and> get_afl_fuzz_pids ((sample_env (Inl FileNotFoundError))
        \<lparr>pgrep := Inr (''12'' @ [CHR 0x0A] @ ''345'' @ [CHR 0x0A])\<rparr>) = Inr [12, 345]
   \<and> stop_fuzzer ((sample_env (Inl FileNotFoundError))
        \<lparr>pgrep := Inr (''12'' @ [CHR 0x0A] @ ''345'' @ [CHR 0x0A])\<rparr>) =
       ([Log (Info (Stopping 12)), Kill 12, Log (Info (Stopping 345)), Kill 345], Inr ())"
proof -
  let ?e = "(sample_env (Inl FileNotFoundError))
              \<lparr>pgrep := Inr (''12'' @ [CHR 0x0A] @ ''345'' @ [CHR 0x0A])\<rparr>"
  let ?f = "(sample_env (Inl FileNotFoundError))\<lparr>pgrep := Inl PermissionError\<rparr>"
  have a: "pgrep (sample_env (Inl FileNotFoundError)) = Inl CalledProcessError" by code_simp
  have b: "get_afl_fuzz_pids ?e = Inr [12, 345]" by code_simp
  have c: "\<forall>pid\<in>set [12, 345]. os_kill ?e pid = Returned" by (simp add: sample_env_def)
  have d: "pgrep ?f = Inl PermissionError \<and> PermissionError \<noteq> CalledProcessError" by simp
  from locate_and_terminate [of "sample_env (Inl FileNotFoundError)"] a
  have "stop_fuzzer (sample_env (Inl FileNotFoundError)) = ([], Inr ())" by simp
  moreover from locate_and_terminate [of ?f] d
  have "stop_fuzzer ?f = ([], Inl PermissionError)" by blast
  moreover from locate_and_terminate [of ?e "[12, 345]"] b c
  have "stop_fuzzer ?e =
      ([Log (Info (Stopping 12)), Kill 12, Log (Info (Stopping 345)), Kill 345], Inr ())"
    by simp
  ultimately show ?thesis using a b by simp
qed

text \<open>
  Two inputs on which the claim fails. When \<^verbatim>\<open>pgrep\<close> cannot be started,
  \<^verbatim>\<open>check_output\<close> raises FileNotFoundError, which the handler does not name: there
  is no list, and the exception leaves the check that wanted to stop the fuzzer.
  And when \<^verbatim>\<open>pgrep\<close> lists 12 and 345 and process 12 is gone by the time of
  \<^verbatim>\<open>os.kill\<close>, ProcessLookupError ends the loop and 345 gets no signal; nor does
  it when 12 is the monitor itself.
\<close>

theorem search_failure_propagates:
  "get_afl_fuzz_pids ((sample_env (Inl FileNotFoundError))\<lparr>pgrep := Inl FileNotFoundError\<rparr>)
     = Inl FileNotFoundError
   \<and> get_afl_fuzz_pids ((sample_env (Inl FileNotFoundError))\<lparr>pgrep := Inl FileNotFoundError\<rparr>)
     \<noteq> Inr []
   \<and> check_fuzzer_status sample_config
       ((sample_env (Inr ''time_wo_finds: 4000''))\<lparr>pgrep := Inl FileNotFoundError\<rparr>) init
     = ([Log (Info (Exiting 4000))], Inl FileNotFoundError)
   \<and> get_afl_fuzz_pids ((sample_env (Inl FileNotFoundError))
        \<lparr>pgrep := Inr (''12'' @ [CHR 0x0A] @ ''345'' @ [CHR 0x0A]),
         os_kill := (\<lambda>pid. if pid = 12 then Raised ProcessLookupError else Returned)\<rparr>)
     = Inr [12, 345]
   \<and> stop_fuzzer ((sample_env (Inl FileNotFoundError))
        \<lparr>pgrep := Inr (''12'' @ [CHR 0x0A] @ ''345'' @ [CHR 0x0A]),
         os_kill := (\<lambda>pid. if pid = 12 then Raised ProcessLookupError else Returned)\<rparr>)
     = ([Log (Info (Stopping 12))], Inl ProcessLookupError)
   \<and> Kill 345 \<notin> set (fst (stop_fuzzer ((sample_env (Inl FileNotFoundError))
        \<lparr>pgrep := Inr (''12'' @ [CHR 0x0A] @ ''345'' @ [CHR 0x0A]),
         os_kill := (\<lambda>pid. if pid = 12 then Raised ProcessLookupError else Returned)\<rparr>)))
   \<and> stop_fuzzer ((sample_env (Inl FileNotFoundError))
        \<lparr>pgrep := Inr (''12'' @ [CHR 0x0A] @ ''345'' @ [CHR 0x0A]),
         os_kill := (\<lambda>pid. if pid = 12 then Ended else Returned)\<rparr>)
     = ([Log (Info (Stopping 12)), Kill 12], Inl Terminated)"
  by code_simp

subsection \<open>Scheduling\<close>

lemma check_fuzzer_status_queue:
  "check_fuzzer_status cfg e m = (fx, Inr (m', v)) \<Longrightarrow>
   queue m' = (if v = Continue then enter (time_time e) (check_interval cfg) 1 (queue m)
               else queue m)"
  by (auto simp: check_fuzzer_status_def Let_def
           split: prod.splits option.splits sum.splits if_splits)

lemma enter_empty:
  "enter now delay priority [] = [\<lparr>ev_time = now + real_of_int delay, ev_priority = priority\<rparr>]"
  by (simp add: enter_def)

lemma check_fuzzer_status_one_event:
  assumes "check_fuzzer_status cfg e (m\<lparr>queue := []\<rparr>) = (fx, Inr (m', v))"
  shows "length (queue m') \<le> 1"
  using check_fuzzer_status_queue [OF assms] by (simp add: enter_empty)

lemma scheduler_run_queue:
  "length (queue m) \<le> 1 \<Longrightarrow> length (queue (fst (snd (scheduler_run cfg es m)))) \<le> 1"
proof (induction es arbitrary: m)
  case Nil
  then show ?case by simp
next
  case (Cons e es)
  show ?case
  proof (cases "queue m")
    case Nil
    then show ?thesis by simp
  next
    case (Cons ev q)
    with Cons.prems have q: "q = []" by simp
    show ?thesis
    proof (cases "check_fuzzer_status cfg e (m\<lparr>queue := q\<rparr>)")
      case (Pair fx r)
      show ?thesis
      proof (cases r)
        case (Inl x)
        with Pair Cons q show ?thesis by simp
      next
        case (Inr mv)
        obtain m' v where mv: "mv = (m', v)" by (cases mv)
        from Pair Inr mv q
        have "check_fuzzer_status cfg e (m\<lparr>queue := []\<rparr>) = (fx, Inr (m', v))" by simp
        then have "length (queue m') \<le> 1"
          by (rule check_fuzzer_status_one_event)
        from Cons.IH [OF this] Pair Inr mv Cons show ?thesis
          by (simp add: case_prod_beta)
      qed
    qed
  qed
qed

lemma scheduler_run_ended:
  "snd (snd (scheduler_run cfg es m)) \<noteq> Pending \<Longrightarrow>
   scheduler_run cfg (es @ es') m = scheduler_run cfg es m"
proof (induction es arbitrary: m)
  case Nil
  then show ?case by (cases es') (auto split: if_splits)
next
  case (Cons e es)
  then show ?case
    by (auto simp: case_prod_beta split: list.splits sum.splits)
qed

lemma scheduler_run_ended_queue:
  "snd (snd (scheduler_run cfg es m)) \<noteq> Pending \<Longrightarrow> length (queue m) \<le> 1 \<Longrightarrow>
   queue (fst (snd (scheduler_run cfg es m))) = []"
proof (induction es arbitrary: m)
  case Nil
  then show ?case by (auto split: if_splits)
next
  case (Cons e es)
  show ?case
  proof (cases "queue m")
    case Nil
    then show ?thesis by simp
  next
    case (Cons ev q)
    with Cons.prems have q: "q = []" by simp
    show ?thesis
    proof (cases "check_fuzzer_status cfg e (m\<lparr>queue := q\<rparr>)")
      case (Pair fx r)
      show ?thesis
      proof (cases r)
        case (Inl x)
        with Pair Cons q show ?thesis by simp
      next
        case (Inr mv)
        obtain m' v where mv: "mv = (m', v)" by (cases mv)
        from Pair Inr mv q
        have "check_fuzzer_status cfg e (m\<lparr>queue := []\<rparr>) = (fx, Inr (m', v))" by simp
        then have len: "length (queue m') \<le> 1"
          by (rule check_fuzzer_status_one_event)
        from Cons.prems(1) Pair Inr mv Cons
        have "snd (snd (scheduler_run cfg es m')) \<noteq> Pending"
          by (simp add: case_prod_beta)
        from Cons.IH [OF this len] Pair Inr mv Cons show ?thesis
          by (simp add: case_prod_beta)
      qed
    qed
  qed
qed

text \<open>
  C9. \<^verbatim>\<open>run\<close> enters the first event 10 after the clock. A check called with an
  empty queue that returns at the end leaves exactly one event, at the clock plus
  \<^verbatim>\<open>check_interval\<close>; one that returns at the stop leaves the queue empty, and then
  \<^verbatim>\<open>scheduler.run()\<close> is finished whatever the environment would offer. Along every
  run at most one event is on the queue, and once a run is over (finished or
  crashed) the queue is empty and further environments change nothing. Time is a
  real number here; the rounding of the clock's floating point is left out.
\<close>

theorem at_most_one_pending_event:
  "queue (fst (snd (run cfg e [] init))) = [\<lparr>ev_time = time_time e + 10, ev_priority = 1\<rparr>]
   \<and> (\<forall>e' m fx m'. check_fuzzer_status cfg e' (m\<lparr>queue := []\<rparr>) = (fx, Inr (m', Continue)) \<longrightarrow>
        queue m' = [\<lparr>ev_time = time_time e' + real_of_int (check_interval cfg), ev_priority = 1\<rparr>])
   \<and> (\<forall>e' m fx m' es'. check_fuzzer_status cfg e' (m\<lparr>queue := []\<rparr>) = (fx, Inr (m', Stop)) \<longrightarrow>
        queue m' = [] \<and> scheduler_run cfg es' m' = ([], m', Finished))
   \<and> length (queue (fst (snd (run cfg e es init)))) \<le> 1
   \<and> (snd (snd (run cfg e es init)) \<noteq> Pending \<longrightarrow>
        queue (fst (snd (run cfg e es init))) = []
        \<and> run cfg e (es @ es') init = run cfg e es init)"
proof -
  have start: "length (queue (init\<lparr>queue := enter (time_time e) 10 1 (queue init)\<rparr>)) \<le> 1"
    by (simp add: init_def enter_empty)
  have 1: "queue (fst (snd (run cfg e [] init))) = [\<lparr>ev_time = time_time e + 10, ev_priority = 1\<rparr>]"
    by (simp add: run_def init_def enter_empty)
  have 2: "queue m' = [\<lparr>ev_time = time_time e' + real_of_int (check_interval cfg), ev_priority = 1\<rparr>]"
    if "check_fuzzer_status cfg e' (m\<lparr>queue := []\<rparr>) = (fx, Inr (m', Continue))" for e' m fx m'
    using check_fuzzer_status_queue [OF that] by (simp add: enter_empty)
  have 3: "queue m' = [] \<and> scheduler_run cfg es' m' = ([], m', Finished)"
    if "check_fuzzer_status cfg e' (m\<lparr>queue := []\<rparr>) = (fx, Inr (m', Stop))" for e' m fx m' es'
  proof -
    have "queue m' = []" using check_fuzzer_status_queue [OF that] by simp
    then show ?thesis by (cases es') simp_all
  qed
  have 4: "length (queue (fst (snd (run cfg e es init)))) \<le> 1"
    using scheduler_run_queue [OF start, of cfg es]
    by (simp add: run_def case_prod_beta)
  have 5: "queue (fst (snd (run cfg e es init))) = [] \<and> run cfg e (es @ es') init = run cfg e es init"
    if "snd (snd (run cfg e es init)) \<noteq> Pending"
  proof -
    from that have np: "snd (snd (scheduler_run cfg es
        (init\<lparr>queue := enter (time_time e) 10 1 (queue init)\<rparr>))) \<noteq> Pending"
      by (simp add: run_def case_prod_beta)
    from scheduler_run_ended_queue [OF np start] scheduler_run_ended [OF np, of es']
    show ?thesis by (simp add: run_def case_prod_beta)
  qed
  from 1 2 3 4 5 show ?thesis by blast
qed

theorem at_most_one_pending_event_witness:
  "check_fuzzer_status sample_config (sample_env (Inr ''time_wo_finds: 100'')) (init\<lparr>queue := []\<rparr>) =
     ([Log (Info Header),
       Log (Info (Row ''2024-01-01 00:00:00'' ''N/A'' ''N/A'' ''N/A'' ''N/A'' ''N/A''))],
      Inr (\<lparr>last_fuzzer_data = Some [(''time_wo_finds'', IntVal 100)],
            queue = [\<lparr>ev_time = 160, ev_priority = 1\<rparr>]\<rparr>, Continue))
   \<and> snd (snd (run sample_config (sample_env (Inl FileNotFoundError))
        [sample_env (Inr ''time_wo_finds: 100''), sample_env (Inr ''time_wo_finds: 4000'')] init))
       = Finished
   \<and> queue (fst (snd (run sample_config (sample_env (Inl FileNotFoundError))
        [sample_env (Inr ''time_wo_finds: 100''), sample_env (Inr ''time_wo_finds: 4000'')] init)))
       = []
   \<and> run sample_config (sample_env (Inl FileNotFoundError))
        ([sample_env (Inr ''time_wo_finds: 100''), sample_env (Inr ''time_wo_finds: 4000'')]
         @ [sample_env (Inr ''time_wo_finds: 100'')]) init
       = run sample_config (sample_env (Inl FileNotFoundError))
        [sample_env (Inr ''time_wo_finds: 100''), sample_env (Inr ''time_wo_finds: 4000'')] init"
proof -
  let ?es = "[sample_env (Inr ''time_wo_finds: 100''), sample_env (Inr ''time_wo_finds: 4000'')]"
  have c: "check_fuzzer_status sample_config (sample_env (Inr ''time_wo_finds: 100''))
      (init\<lparr>queue := []\<rparr>) =
     ([Log (Info Header),
       Log (Info (Row ''2024-01-01 00:00:00'' ''N/A'' ''N/A'' ''N/A'' ''N/A'' ''N/A''))],
      Inr (\<lparr>last_fuzzer_data = Some [(''time_wo_finds'', IntVal 100)],
            queue = [\<lparr>ev_time = 160, ev_priority = 1\<rparr>]\<rparr>, Continue))"
    by code_simp
  have f: "snd (snd (run sample_config (sample_env (Inl FileNotFoundError)) ?es init)) = Finished"
    by code_simp
  then have "snd (snd (run sample_config (sample_env (Inl FileNotFoundError)) ?es init)) \<noteq> Pending"
    by simp
  with at_most_one_pending_event [of sample_config "sample_env (Inl FileNotFoundError)" ?es
      "[sample_env (Inr ''time_wo_finds: 100'')]"] c f
  show ?thesis by simp
qed

end
